theory Spec2Isabelle
  imports Main "HOL-Library.Word"
begin

section \<open>The session manager of \<open>auth.service.ts\<close>\<close>

text \<open>
  The class \<open>AuthService\<close> keeps a session in three places: the browser's
  \<open>localStorage\<close> (keys \<open>auth-token\<close> and \<open>user\<close>) and two \<open>BehaviorSubject\<close>s.
  The embedding passes that state explicitly. A \<open>BehaviorSubject\<close> is modelled by the
  value it currently holds: \<open>next(v)\<close> overwrites it and \<open>.value\<close> reads it; the value a
  stream replays to a subscriber is that same value.

  Outside the model: the notifications themselves (a subscriber that calls back into the
  service while it is notified), a \<open>setItem\<close> that throws because the storage quota is
  exhausted, and the \<open>console.error\<close> line of \<open>handleError\<close>, which no other operation reads.
\<close>

subsection \<open>Data model\<close>

record User =
  name :: string
  email :: string
  role :: string

record AuthResponse =
  token :: string
  user :: User

record session =
  localStorage :: "string \<rightharpoonup> string"
  authStatusSubject :: bool
  currentUserSubject :: "User option"

subsection \<open>JavaScript values\<close>

text \<open>
  \<open>handleError\<close> takes \<open>error: any\<close>, and what it reads from it (the parsed response
  body \<open>error.error\<close>, \<open>status\<close>) is untyped too. Such a value is modelled by the
  datatype below: the primitives, arrays, and plain objects as the list of their own
  properties. A number is a signed integer of 53 bits, read with \<open>sint\<close>: every such
  integer is a JavaScript number (a double holds it exactly) and prints in plain decimal.
  Fractions and larger magnitudes are outside the datatype; the code only compares a number
  with \<open>0\<close>.
\<close>

datatype jsval =
    JUndefined
  | JNull
  | JBool bool
  | JNum "53 word"
  | JStr string
  | JArr "jsval list"
  | JObj "(string \<times> jsval) list"

text \<open>What is thrown or propagated: an \<open>Error\<close> with its message, or the engine's \<open>TypeError\<close>.\<close>

datatype thrown = JsError string | JsTypeError

definition nullish :: "jsval \<Rightarrow> bool" where
  "nullish v = (v = JUndefined \<or> v = JNull)"

fun truthy :: "jsval \<Rightarrow> bool" where
  "truthy JUndefined = False"
| "truthy JNull = False"
| "truthy (JBool b) = b"
| "truthy (JNum n) = (n \<noteq> 0)"
| "truthy (JStr s) = (s \<noteq> [])"
| "truthy (JArr xs) = True"
| "truthy (JObj kvs) = True"

text \<open>
  Reading a property of a value that is neither \<open>undefined\<close> nor \<open>null\<close>. The names the
  code reads (\<open>error\<close>, \<open>msg\<close>, \<open>errors\<close>, \<open>status\<close>) are no properties of a primitive
  or of an array, nor of \<open>Object.prototype\<close>, so only an object's own property answers.
\<close>

fun read_prop :: "jsval \<Rightarrow> string \<Rightarrow> jsval" where
  "read_prop (JObj kvs) p = (case map_of kvs p of None \<Rightarrow> JUndefined | Some v \<Rightarrow> v)"
| "read_prop v p = JUndefined"

text \<open>\<open>v.p\<close> throws a \<open>TypeError\<close> (the value \<open>None\<close>) on \<open>undefined\<close> and \<open>null\<close>; \<open>v?.p\<close> is \<open>undefined\<close> there.\<close>

definition get :: "jsval \<Rightarrow> string \<Rightarrow> jsval option" where
  "get v p = (if nullish v then None else Some (read_prop v p))"

definition opt_get :: "jsval \<Rightarrow> string \<Rightarrow> jsval" where
  "opt_get v p = (if nullish v then JUndefined else read_prop v p)"

fun isArray :: "jsval \<Rightarrow> bool" where
  "isArray (JArr xs) = True"
| "isArray v = False"

text \<open>
  A number prints in decimal, the digits of its magnitude after the sign. The magnitude
  is below \<open>2^53\<close>, far from \<open>10^21\<close>, where JavaScript turns to the exponent form.
\<close>

definition decimal_digit :: "nat \<Rightarrow> char" where
  "decimal_digit d = (''0123456789'' ! (d mod 10))"

function decimal_of :: "nat \<Rightarrow> string \<Rightarrow> string" where
  "decimal_of n acc =
     (if n div 10 = 0 then decimal_digit n # acc
      else decimal_of (n div 10) (decimal_digit n # acc))"
  by pat_completeness auto
termination
  by (relation "measure fst") auto

declare decimal_of.simps [simp del]

definition number_to_string :: "53 word \<Rightarrow> string" where
  "number_to_string w =
     (if sint w < 0 then CHR ''-'' # decimal_of (nat (- sint w)) []
      else decimal_of (nat (sint w)) [])"

fun join_strings :: "string \<Rightarrow> string list \<Rightarrow> string" where
  "join_strings sep [] = []"
| "join_strings sep [x] = x"
| "join_strings sep (x # y # ys) = x @ sep @ join_strings sep (y # ys)"

text \<open>
  \<open>ToString\<close>. An array prints as its elements joined with a comma, \<open>undefined\<close> and
  \<open>null\<close> elements as the empty string. A plain object prints through the inherited
  \<open>toString\<close>; an own property \<open>toString\<close> shadows it, a parsed value is never callable,
  and the conversion throws a \<open>TypeError\<close> (the value \<open>None\<close>).
\<close>

fun to_string :: "jsval \<Rightarrow> string option" where
  "to_string JUndefined = Some ''undefined''"
| "to_string JNull = Some ''null''"
| "to_string (JBool b) = Some (if b then ''true'' else ''false'')"
| "to_string (JNum n) = Some (number_to_string n)"
| "to_string (JStr s) = Some s"
| "to_string (JArr xs) =
     map_option (join_strings '','')
       (those (map (\<lambda>x. if x = JUndefined \<or> x = JNull then Some [] else to_string x) xs))"
| "to_string (JObj kvs) =
     (if ''toString'' \<in> fst ` set kvs then None else Some ''[object Object]'')"

text \<open>\<open>Array.prototype.join(sep)\<close> and \<open>Array.prototype.map(f)\<close>, where \<open>f\<close> may throw.\<close>

definition join :: "string \<Rightarrow> jsval list \<Rightarrow> jsval option" where
  "join sep xs =
     map_option (\<lambda>strs. JStr (join_strings sep strs))
       (those (map (\<lambda>x. if nullish x then Some [] else to_string x) xs))"

definition array_map :: "(jsval \<Rightarrow> jsval option) \<Rightarrow> jsval \<Rightarrow> jsval list option" where
  "array_map f v = (case v of JArr xs \<Rightarrow> those (map f xs) | _ \<Rightarrow> None)"

text \<open>\<open>new Error(message)\<close>: the message is converted to a string unless it is \<open>undefined\<close>.\<close>

definition new_Error :: "jsval \<Rightarrow> thrown" where
  "new_Error message =
     (if message = JUndefined then JsError []
      else case to_string message of None \<Rightarrow> JsTypeError | Some m \<Rightarrow> JsError m)"

subsection \<open>\<open>JSON.stringify\<close> on a \<open>User\<close>\<close>

text \<open>
  \<open>saveSession\<close> stores \<open>JSON.stringify(response.user)\<close>. For an object that carries the
  three string fields of the interface, in the interface's order, this is the text below:
  quotation mark and backslash are escaped, the control characters below 0x20 are written
  \<open>\b \t \n \f \r\<close> or \<open>\u00XX\<close>, every other character stands for itself.
\<close>

definition hex_digit :: "nat \<Rightarrow> char" where
  "hex_digit n = (''0123456789abcdef'' ! (n mod 16))"

definition json_escape :: "char \<Rightarrow> string" where
  "json_escape c =
     (if c = CHR 0x22 then [CHR 0x5C, CHR 0x22]
      else if c = CHR 0x5C then [CHR 0x5C, CHR 0x5C]
      else if c = CHR 0x08 then [CHR 0x5C, CHR ''b'']
      else if c = CHR 0x09 then [CHR 0x5C, CHR ''t'']
      else if c = CHR 0x0A then [CHR 0x5C, CHR ''n'']
      else if c = CHR 0x0C then [CHR 0x5C, CHR ''f'']
      else if c = CHR 0x0D then [CHR 0x5C, CHR ''r'']
      else if (of_char c :: nat) < 32
        then [CHR 0x5C, CHR ''u'', CHR ''0'', CHR ''0'',
              hex_digit (of_char c div 16), hex_digit (of_char c)]
      else [c])"

definition json_quote :: "string \<Rightarrow> string" where
  "json_quote s = [CHR 0x22] @ concat (map json_escape s) @ [CHR 0x22]"

definition JSON_stringify :: "User \<Rightarrow> string" where
  "JSON_stringify u =
     ''{'' @ json_quote ''name'' @ '':'' @ json_quote (name u) @ '','' @
     json_quote ''email'' @ '':'' @ json_quote (email u) @ '','' @
     json_quote ''role'' @ '':'' @ json_quote (role u) @ ''}''"

subsection \<open>Session operations\<close>

definition saveSession :: "AuthResponse \<Rightarrow> session \<Rightarrow> session" where
  "saveSession response s =
     s\<lparr>localStorage :=
         ((localStorage s)(''auth-token'' \<mapsto> token response))
           (''user'' \<mapsto> JSON_stringify (user response)),
       authStatusSubject := True,
       currentUserSubject := Some (user response)\<rparr>"

definition getToken :: "session \<Rightarrow> string option" where
  "getToken s = localStorage s ''auth-token''"

definition getUser :: "session \<Rightarrow> User option" where
  "getUser s = currentUserSubject s"

text \<open>
  \<open>this.getUser()?.role || null\<close>: without a user the left operand is \<open>undefined\<close>; with
  one it is the role, and \<open>||\<close> replaces a falsy role, the empty string, by \<open>null\<close>.
\<close>

definition getUserRole :: "session \<Rightarrow> string option" where
  "getUserRole s =
     (case getUser s of
        None \<Rightarrow> None
      | Some u \<Rightarrow> (if role u = [] then None else Some (role u)))"

text \<open>\<open>!!localStorage.getItem('auth-token')\<close>: \<open>null\<close> and the empty string are falsy.\<close>

definition hasToken :: "session \<Rightarrow> bool" where
  "hasToken s =
     (case localStorage s ''auth-token'' of
        None \<Rightarrow> False
      | Some t \<Rightarrow> t \<noteq> [])"

definition isAuthenticated :: "session \<Rightarrow> bool" where
  "isAuthenticated s = hasToken s"

definition logout :: "session \<Rightarrow> session" where
  "logout s =
     s\<lparr>localStorage := (localStorage s)(''auth-token'' := None, ''user'' := None),
       authStatusSubject := False,
       currentUserSubject := None\<rparr>"

subsection \<open>Error mapping\<close>

definition fallback_message :: string where
  "fallback_message = ''Something went wrong. Please try again later.''"

definition connectivity_message :: string where
  "connectivity_message =
     ''Unable to connect to the server. Check your internet connection or CORS policy.''"

text \<open>
  \<open>handleError\<close> computes \<open>message\<close> and returns \<open>throwError(() => new Error(message))\<close>;
  the result below is what the subscriber's error callback receives. A \<open>TypeError\<close>
  thrown while the handler runs (\<open>None\<close> in the computation of \<open>message\<close>) is what
  \<open>catchError\<close> passes on instead.
\<close>

definition handleError :: "jsval \<Rightarrow> thrown" where
  "handleError error =
     (let message =
        (if truthy (opt_get (opt_get error ''error'') ''msg'')
           then Option.bind (get error ''error'') (\<lambda>body. get body ''msg'')
         else if isArray (opt_get (opt_get error ''error'') ''errors'')
           then Option.bind (Option.bind (get error ''error'') (\<lambda>body. get body ''errors''))
                  (\<lambda>errors. Option.bind (array_map (\<lambda>e. get e ''msg'') errors) (join '', ''))
         else Option.bind (get error ''status'')
                (\<lambda>status. if status = JNum 0 then Some (JStr connectivity_message)
                           else Some (JStr fallback_message)))
      in case message of None \<Rightarrow> JsTypeError | Some m \<Rightarrow> new_Error m)"

subsection \<open>Register and login\<close>

text \<open>
  Both post a request and pipe the answer through \<open>tap(saveSession)\<close> and
  \<open>catchError(handleError)\<close>. The answer of the server is the environment's: it is the
  argument \<open>result\<close>, \<open>Inr\<close> the response body of a success and \<open>Inl\<close> the failure value
  the HTTP client raises. The functions describe one subscription to the returned
  observable: what the subscriber receives, and the session afterwards.
\<close>

record RegisterRequest =
  req_name :: string
  req_email :: string
  req_password :: string

type_synonym http_result = "jsval + AuthResponse"

definition register ::
  "RegisterRequest \<Rightarrow> http_result \<Rightarrow> session \<Rightarrow> (thrown + AuthResponse) \<times> session" where
  "register request result s =
     (case result of
        Inr res \<Rightarrow> (Inr res, saveSession res s)
      | Inl error \<Rightarrow> (Inl (handleError error), s))"

definition login ::
  "string \<Rightarrow> string \<Rightarrow> http_result \<Rightarrow> session \<Rightarrow> (thrown + AuthResponse) \<times> session" where
  "login login_email password result s =
     (case result of
        Inr res \<Rightarrow> (Inr res, saveSession res s)
      | Inl error \<Rightarrow> (Inl (handleError error), s))"

subsection \<open>Sequences of operations\<close>

datatype operation =
    OpSaveSession AuthResponse
  | OpLogout
  | OpRegister RegisterRequest http_result
  | OpLogin string string http_result

fun step :: "operation \<Rightarrow> session \<Rightarrow> session" where
  "step (OpSaveSession response) s = saveSession response s"
| "step OpLogout s = logout s"
| "step (OpRegister request result) s = snd (register request result s)"
| "step (OpLogin login_email password result) s = snd (login login_email password result s)"

text \<open>The sessions after each operation of a sequence, in order.\<close>

fun run :: "session \<Rightarrow> operation list \<Rightarrow> session list" where
  "run s [] = []"
| "run s (x # xs) = step x s # run (step x s) xs"

text \<open>The session-state invariant: the token entry is stored exactly when the user entry is.\<close>

definition session_invariant :: "session \<Rightarrow> bool" where
  "session_invariant s =
     ((localStorage s ''auth-token'' \<noteq> None) = (localStorage s ''user'' \<noteq> None))"

text \<open>
  The session of a cold start with nothing persisted: the constructor finds no token
  (\<open>hasToken()\<close> is false) and no stored user (\<open>getStoredUser()\<close> is \<open>null\<close>).
\<close>

definition cold_start :: session where
  "cold_start =
     \<lparr>localStorage = Map.empty, authStatusSubject = False, currentUserSubject = None\<rparr>"

section \<open>Properties\<close>

subsection \<open>What register and login do with the answer\<close>

lemma register_success: "register q (Inr r) s = (Inr r, saveSession r s)"
  by (simp add: register_def)

lemma login_success: "login a p (Inr r) s = (Inr r, saveSession r s)"
  by (simp add: login_def)

lemma register_failure: "register q (Inl e) s = (Inl (handleError e), s)"
  by (simp add: register_def)

lemma login_failure: "login a p (Inl e) s = (Inl (handleError e), s)"
  by (simp add: login_def)

subsection \<open>Session state\<close>

text \<open>
  C1. After \<open>saveSession\<close> is applied to a response with token \<open>t\<close> and user \<open>u\<close>, and so
  after a successful \<open>register\<close> or \<open>login\<close> with that response, \<open>getToken()\<close> returns \<open>t\<close>
  and \<open>getUser()\<close> returns \<open>u\<close>, whatever the session was before.
\<close>

theorem session_after_success:
  "getToken (saveSession r s) = Some (token r) \<and>
   getUser (saveSession r s) = Some (user r) \<and>
   getToken (snd (register q (Inr r) s)) = Some (token r) \<and>
   getUser (snd (register q (Inr r) s)) = Some (user r) \<and>
   getToken (snd (login a p (Inr r) s)) = Some (token r) \<and>
   getUser (snd (login a p (Inr r) s)) = Some (user r)"
  by (simp add: register_success login_success getToken_def getUser_def saveSession_def)

text \<open>
  C2. After \<open>logout()\<close>, from any session, \<open>getToken()\<close> and \<open>getUser()\<close> return nothing
  and the authenticated stream holds \<open>false\<close>.
\<close>

theorem session_after_logout:
  "getToken (logout s) = None \<and> getUser (logout s) = None \<and>
   authStatusSubject (logout s) = False"
  by (simp add: getToken_def getUser_def logout_def)

text \<open>
  C3, as stated, fails for a response whose token is the empty string: the token is
  stored, and \<open>hasToken\<close> reads the stored empty string as falsy.
\<close>

theorem isAuthenticated_empty_token_counterexample:
  "\<not> isAuthenticated
       (saveSession
          \<lparr>token = [], user = \<lparr>name = ''Ann'', email = ''ann@example.org'', role = ''user''\<rparr>\<rparr>
          cold_start)"
  by (simp add: isAuthenticated_def hasToken_def saveSession_def)

text \<open>
  C3, amended. For a response with a non-empty token, \<open>isAuthenticated()\<close> is true right
  after \<open>saveSession\<close> (after a successful \<open>register\<close> or \<open>login\<close>); it is false right
  after \<open>logout()\<close>, from any session.
\<close>

theorem isAuthenticated_after_success_and_logout:
  assumes "token r \<noteq> []"
  shows "isAuthenticated (saveSession r s) \<and>
         isAuthenticated (snd (register q (Inr r) s)) \<and>
         isAuthenticated (snd (login a p (Inr r) s)) \<and>
         \<not> isAuthenticated (logout s')"
  using assms
  by (simp add: register_success login_success isAuthenticated_def hasToken_def
      saveSession_def logout_def)

theorem isAuthenticated_after_success_and_logout_witness:
  "token \<lparr>token = ''abc'', user = \<lparr>name = ''Ann'', email = ''ann@example.org'', role = ''user''\<rparr>\<rparr> \<noteq> [] \<and>
   isAuthenticated
     (saveSession
        \<lparr>token = ''abc'', user = \<lparr>name = ''Ann'', email = ''ann@example.org'', role = ''user''\<rparr>\<rparr>
        cold_start) \<and>
   \<not> isAuthenticated
     (logout
        (saveSession
           \<lparr>token = ''abc'', user = \<lparr>name = ''Ann'', email = ''ann@example.org'', role = ''user''\<rparr>\<rparr>
           cold_start))"
  using isAuthenticated_after_success_and_logout
    [of "\<lparr>token = ''abc'', user = \<lparr>name = ''Ann'', email = ''ann@example.org'', role = ''user''\<rparr>\<rparr>"
        cold_start _ _ _
        "saveSession
           \<lparr>token = ''abc'', user = \<lparr>name = ''Ann'', email = ''ann@example.org'', role = ''user''\<rparr>\<rparr>
           cold_start"]
  by simp

subsection \<open>The session-state invariant\<close>

lemma saveSession_invariant: "session_invariant (saveSession r s)"
  by (simp add: session_invariant_def saveSession_def)

lemma logout_invariant: "session_invariant (logout s)"
  by (simp add: session_invariant_def logout_def)

lemma step_invariant: "session_invariant s \<Longrightarrow> session_invariant (step x s)"
  by (cases x)
     (auto simp: saveSession_invariant logout_invariant register_def login_def
           split: sum.splits)

text \<open>
  C4. From a session whose token entry and user entry are both stored or both missing,
  the session after each operation of any sequence of \<open>saveSession\<close>, \<open>logout\<close>,
  \<open>register\<close> and \<open>login\<close> (succeeding or failing) has the token entry stored exactly
  when the user entry is.
\<close>

theorem run_keeps_session_invariant:
  "session_invariant s \<Longrightarrow> \<forall>s' \<in> set (run s ops). session_invariant s'"
proof (induction ops arbitrary: s)
  case Nil
  show ?case by simp
next
  case (Cons x xs)
  from Cons.prems have "session_invariant (step x s)"
    by (rule step_invariant)
  with Cons.IH show ?case by simp
qed

theorem run_keeps_session_invariant_witness:
  "session_invariant cold_start \<and>
   list_all session_invariant
     (run cold_start
        [OpRegister \<lparr>req_name = ''Ann'', req_email = ''ann@example.org'', req_password = ''pw''\<rparr>
           (Inl (JObj [(''status'', JNum 0)])),
         OpLogin ''ann@example.org'' ''pw''
           (Inr \<lparr>token = ''abc'',
                 user = \<lparr>name = ''Ann'', email = ''ann@example.org'', role = ''user''\<rparr>\<rparr>),
         OpLogout,
         OpSaveSession
           \<lparr>token = [], user = \<lparr>name = ''Bob'', email = ''bob@example.org'', role = ''admin''\<rparr>\<rparr>])"
proof -
  have h: "session_invariant cold_start"
    by (simp add: session_invariant_def cold_start_def)
  show ?thesis
    unfolding list_all_iff using h run_keeps_session_invariant [OF h] by blast
qed

subsection \<open>Role of the current user\<close>

text \<open>
  C8, as stated, fails for a user whose role is the empty string: \<open>|| null\<close> turns the
  falsy role into \<open>null\<close>.
\<close>

theorem getUserRole_empty_role_counterexample:
  "getUser (saveSession
      \<lparr>token = ''abc'', user = \<lparr>name = ''Ann'', email = ''ann@example.org'', role = []\<rparr>\<rparr>
      cold_start)
     = Some \<lparr>name = ''Ann'', email = ''ann@example.org'', role = []\<rparr> \<and>
   getUserRole (saveSession
      \<lparr>token = ''abc'', user = \<lparr>name = ''Ann'', email = ''ann@example.org'', role = []\<rparr>\<rparr>
      cold_start)
     \<noteq> Some (role \<lparr>name = ''Ann'', email = ''ann@example.org'', role = []\<rparr>)"
  by (simp add: getUserRole_def getUser_def saveSession_def)

text \<open>
  C8, amended. \<open>getUserRole()\<close> returns the role of the current user when \<open>getUser()\<close>
  returns a user whose role is not the empty string, and nothing when \<open>getUser()\<close>
  returns no user.
\<close>

theorem getUserRole_of_user:
  "(getUser s = Some u \<and> role u \<noteq> [] \<longrightarrow> getUserRole s = Some (role u)) \<and>
   (getUser s = None \<longrightarrow> getUserRole s = None)"
  by (simp add: getUserRole_def)

theorem getUserRole_of_user_witness:
  "getUser (saveSession
      \<lparr>token = ''abc'', user = \<lparr>name = ''Ann'', email = ''ann@example.org'', role = ''admin''\<rparr>\<rparr>
      cold_start)
     = Some \<lparr>name = ''Ann'', email = ''ann@example.org'', role = ''admin''\<rparr> \<and>
   role \<lparr>name = ''Ann'', email = ''ann@example.org'', role = ''admin''\<rparr> \<noteq> [] \<and>
   getUserRole (saveSession
      \<lparr>token = ''abc'', user = \<lparr>name = ''Ann'', email = ''ann@example.org'', role = ''admin''\<rparr>\<rparr>
      cold_start) = Some ''admin'' \<and>
   getUser cold_start = None \<and>
   getUserRole cold_start = None"
proof -
  let ?u = "\<lparr>name = ''Ann'', email = ''ann@example.org'', role = ''admin''\<rparr>"
  let ?s = "saveSession \<lparr>token = ''abc'', user = ?u\<rparr> cold_start"
  have a: "getUser ?s = Some ?u"
    by (simp add: getUser_def saveSession_def)
  have b: "role ?u \<noteq> []" by simp
  have c: "getUser cold_start = None"
    by (simp add: getUser_def cold_start_def)
  from a b getUserRole_of_user [of ?s ?u] have d: "getUserRole ?s = Some ''admin''" by simp
  from c getUserRole_of_user [of cold_start] have e: "getUserRole cold_start = None" by blast
  from a b c d e show ?thesis by blast
qed

subsection \<open>The broadcast flag and the stored token\<close>

text \<open>
  C9. After \<open>saveSession\<close> with a response whose token is the empty string, the
  authenticated stream holds \<open>true\<close> while \<open>isAuthenticated()\<close> returns \<open>false\<close>.
\<close>

theorem empty_token_flags_disagree:
  assumes "token r = []"
  shows "authStatusSubject (saveSession r s) = True \<and> isAuthenticated (saveSession r s) = False"
  using assms by (simp add: saveSession_def isAuthenticated_def hasToken_def)

theorem empty_token_flags_disagree_witness:
  "token \<lparr>token = [], user = \<lparr>name = ''Bob'', email = ''bob@example.org'', role = ''admin''\<rparr>\<rparr> = [] \<and>
   authStatusSubject
     (saveSession
        \<lparr>token = [], user = \<lparr>name = ''Bob'', email = ''bob@example.org'', role = ''admin''\<rparr>\<rparr>
        cold_start) \<and>
   \<not> isAuthenticated
     (saveSession
        \<lparr>token = [], user = \<lparr>name = ''Bob'', email = ''bob@example.org'', role = ''admin''\<rparr>\<rparr>
        cold_start)"
  using empty_token_flags_disagree
    [of "\<lparr>token = [], user = \<lparr>name = ''Bob'', email = ''bob@example.org'', role = ''admin''\<rparr>\<rparr>"
        cold_start]
  by simp

subsection \<open>Error mapping: the three branches of \<open>handleError\<close>\<close>

lemma opt_get_truthy_get:
  "truthy (opt_get (opt_get e ''error'') ''msg'') \<Longrightarrow>
   Option.bind (get e ''error'') (\<lambda>body. get body ''msg'') = Some (opt_get (opt_get e ''error'') ''msg'')"
  by (auto simp: opt_get_def get_def split: if_splits)

lemma opt_get_array_get:
  "opt_get (opt_get e ''error'') ''errors'' = JArr es \<Longrightarrow>
   Option.bind (get e ''error'') (\<lambda>body. get body ''errors'') = Some (JArr es)"
  by (auto simp: opt_get_def get_def split: if_splits)

lemma opt_get_string_get: "opt_get x p = JStr m \<Longrightarrow> get x p = Some (JStr m)"
  by (auto simp: opt_get_def get_def split: if_splits)

lemma those_map_get_msg:
  "map (\<lambda>x. opt_get x ''msg'') es = map JStr ms \<Longrightarrow>
   those (map (\<lambda>x. get x ''msg'') es) = Some (map JStr ms)"
proof (induction es arbitrary: ms)
  case Nil
  then show ?case by simp
next
  case (Cons x xs)
  then obtain m ms' where ms: "ms = m # ms'" by (cases ms) auto
  with Cons.prems have "opt_get x ''msg'' = JStr m"
    and "map (\<lambda>x. opt_get x ''msg'') xs = map JStr ms'" by simp_all
  with Cons.IH show ?case
    by (simp add: ms opt_get_string_get)
qed

lemma join_strings_values: "join sep (map JStr ms) = Some (JStr (join_strings sep ms))"
proof -
  have "those (map (\<lambda>x. if nullish x then Some [] else to_string x) (map JStr ms)) = Some ms"
    by (induction ms) (simp_all add: nullish_def)
  then show ?thesis by (simp add: join_def)
qed

lemma handleError_msg:
  assumes "opt_get (opt_get e ''error'') ''msg'' = JStr m" and "m \<noteq> []"
  shows "handleError e = JsError m"
  using assms by (simp add: handleError_def opt_get_truthy_get new_Error_def)

lemma handleError_errors:
  assumes "opt_get (opt_get e ''error'') ''msg'' = JUndefined"
    and "opt_get (opt_get e ''error'') ''errors'' = JArr es"
    and "map (\<lambda>x. opt_get x ''msg'') es = map JStr ms"
  shows "handleError e = JsError (join_strings '', '' ms)"
  using assms
  by (simp add: handleError_def opt_get_array_get array_map_def those_map_get_msg
      join_strings_values new_Error_def)


subsection \<open>Error mapping: the propagated message\<close>

text \<open>
  C5, as stated, fails for a failure whose message field is present and empty,
  \<open>{error: {msg: ""}}\<close>: the test \<open>if (error?.error?.msg)\<close> reads the empty string as
  falsy, and the message propagated is not that string.
\<close>

theorem server_message_empty_counterexample:
  "opt_get (opt_get (JObj [(''error'', JObj [(''msg'', JStr [])])]) ''error'') ''msg'' = JStr [] \<and>
   handleError (JObj [(''error'', JObj [(''msg'', JStr [])])]) \<noteq> JsError []"
  by (simp add: handleError_def opt_get_def get_def nullish_def new_Error_def fallback_message_def)

text \<open>
  C5, amended. For a failed \<open>register\<close> or \<open>login\<close> whose failure value carries a
  non-empty message string at \<open>error.error.msg\<close>, the error propagated carries exactly
  that string. The witness is the failure \<open>{error: {msg: "Email taken"}}\<close>.
\<close>

theorem server_message_propagated:
  assumes "opt_get (opt_get e ''error'') ''msg'' = JStr m" and "m \<noteq> []"
  shows "handleError e = JsError m \<and>
         fst (register q (Inl e) s) = Inl (JsError m) \<and>
         fst (login a p (Inl e) s) = Inl (JsError m)"
  using handleError_msg [OF assms] by (simp add: register_failure login_failure)

theorem server_message_propagated_witness:
  "opt_get (opt_get (JObj [(''error'', JObj [(''msg'', JStr ''Email taken'')])]) ''error'') ''msg''
     = JStr ''Email taken'' \<and>
   ''Email taken'' \<noteq> [] \<and>
   handleError (JObj [(''error'', JObj [(''msg'', JStr ''Email taken'')])]) = JsError ''Email taken''"
proof -
  have h: "opt_get (opt_get (JObj [(''error'', JObj [(''msg'', JStr ''Email taken'')])]) ''error'') ''msg''
     = JStr ''Email taken''"
    by (simp add: opt_get_def nullish_def)
  have n: "''Email taken'' \<noteq> []" by simp
  from h n server_message_propagated [OF h n] show ?thesis by blast
qed

text \<open>
  C6. For a failed \<open>register\<close> or \<open>login\<close> whose failure value has no message field
  and has an array at \<open>error.error.errors\<close>, each element with a string \<open>msg\<close>, the
  message propagated is those strings joined with a comma and a space. The witness is the
  failure \<open>{error: {errors: [{msg: "A"}, {msg: "B"}]}}\<close>, with the message \<open>A, B\<close>.
\<close>

theorem field_errors_joined:
  assumes "opt_get (opt_get e ''error'') ''msg'' = JUndefined"
    and "opt_get (opt_get e ''error'') ''errors'' = JArr es"
    and "map (\<lambda>x. opt_get x ''msg'') es = map JStr ms"
  shows "handleError e = JsError (join_strings '', '' ms) \<and>
         fst (register q (Inl e) s) = Inl (JsError (join_strings '', '' ms)) \<and>
         fst (login a p (Inl e) s) = Inl (JsError (join_strings '', '' ms))"
  using handleError_errors [OF assms] by (simp add: register_failure login_failure)

theorem field_errors_joined_witness:
  "opt_get (opt_get (JObj [(''error'', JObj [(''errors'',
      JArr [JObj [(''msg'', JStr ''A'')], JObj [(''msg'', JStr ''B'')]])])]) ''error'') ''msg''
     = JUndefined \<and>
   opt_get (opt_get (JObj [(''error'', JObj [(''errors'',
      JArr [JObj [(''msg'', JStr ''A'')], JObj [(''msg'', JStr ''B'')]])])]) ''error'') ''errors''
     = JArr [JObj [(''msg'', JStr ''A'')], JObj [(''msg'', JStr ''B'')]] \<and>
   map (\<lambda>x. opt_get x ''msg'') [JObj [(''msg'', JStr ''A'')], JObj [(''msg'', JStr ''B'')]]
     = map JStr [''A'', ''B''] \<and>
   handleError (JObj [(''error'', JObj [(''errors'',
      JArr [JObj [(''msg'', JStr ''A'')], JObj [(''msg'', JStr ''B'')]])])]) = JsError ''A, B''"
proof -
  let ?e = "JObj [(''error'', JObj [(''errors'',
      JArr [JObj [(''msg'', JStr ''A'')], JObj [(''msg'', JStr ''B'')]])])]"
  have h1: "opt_get (opt_get ?e ''error'') ''msg'' = JUndefined"
    by (simp add: opt_get_def nullish_def)
  have h2: "opt_get (opt_get ?e ''error'') ''errors''
     = JArr [JObj [(''msg'', JStr ''A'')], JObj [(''msg'', JStr ''B'')]]"
    by (simp add: opt_get_def nullish_def)
  have h3: "map (\<lambda>x. opt_get x ''msg'') [JObj [(''msg'', JStr ''A'')], JObj [(''msg'', JStr ''B'')]]
     = map JStr [''A'', ''B'']"
    by (simp add: opt_get_def nullish_def)
  from field_errors_joined [OF h1 h2 h3]
  have "handleError ?e = JsError ''A, B''" by simp
  with h1 h2 h3 show ?thesis by blast
qed



text \<open>
  C10. For a failed \<open>register\<close> or \<open>login\<close> whose failure value has no message field
  and an empty array at \<open>error.error.errors\<close>, the message propagated is the empty
  string, which is neither the connectivity string nor the fallback string.
\<close>

theorem empty_field_errors_message:
  assumes "opt_get (opt_get e ''error'') ''msg'' = JUndefined"
    and "opt_get (opt_get e ''error'') ''errors'' = JArr []"
  shows "handleError e = JsError [] \<and>
         fst (register q (Inl e) s) = Inl (JsError []) \<and>
         fst (login a p (Inl e) s) = Inl (JsError []) \<and>
         [] \<noteq> connectivity_message \<and> [] \<noteq> fallback_message"
proof -
  have "map (\<lambda>x. opt_get x ''msg'') [] = map JStr []" by simp
  from handleError_errors [OF assms this] have "handleError e = JsError []" by simp
  then show ?thesis
    by (simp add: register_failure login_failure connectivity_message_def fallback_message_def)
qed

theorem empty_field_errors_message_witness:
  "opt_get (opt_get (JObj [(''error'', JObj [(''errors'', JArr [])])]) ''error'') ''msg''
     = JUndefined \<and>
   opt_get (opt_get (JObj [(''error'', JObj [(''errors'', JArr [])])]) ''error'') ''errors''
     = JArr [] \<and>
   handleError (JObj [(''error'', JObj [(''errors'', JArr [])])]) = JsError []"
proof -
  let ?e = "JObj [(''error'', JObj [(''errors'', JArr [])])]"
  have h1: "opt_get (opt_get ?e ''error'') ''msg'' = JUndefined"
    by (simp add: opt_get_def nullish_def)
  have h2: "opt_get (opt_get ?e ''error'') ''errors'' = JArr []"
    by (simp add: opt_get_def nullish_def)
  from h1 h2 empty_field_errors_message [OF h1 h2] show ?thesis by blast
qed

end
